theory Spec2Isabelle
  imports Main
begin

section \<open>Values of the status object\<close>

text \<open>
  The status returned by \<open>getModuleDetailsUma\<close> is an object literal whose
  \<open>proposalEvent\<close> field is typed \<open>any\<close>. It is one of three things: the empty
  object \<open>{}\<close> (the branch for undefined transactions), \<open>undefined\<close> (the first
  element of an empty array) or the object built from an oracle request. A field of an
  object may therefore be absent; reading it gives \<open>undefined\<close>. Every field of the
  event object is an option, \<open>None\<close> being \<open>undefined\<close>.

  \<open>resolvedPrice\<close> is the \<open>int256\<close> of the oracle request as the contract
  library decodes it: a BigNumber object carrying an integer.
\<close>

record fullProposalEvent =
  expirationTimestamp :: "nat option"
  isExpired :: "bool option"
  isDisputed :: "bool option"
  isSettled :: "bool option"
  resolvedPrice :: "int option"
  proposalHash :: "string option"
  proposalTime :: "nat option"

definition emptyObject :: fullProposalEvent where
  "emptyObject = \<lparr> expirationTimestamp = None, isExpired = None, isDisputed = None,
     isSettled = None, resolvedPrice = None, proposalHash = None, proposalTime = None \<rparr>"

record moduleDetails =
  dao :: string
  oracle' :: string
  rules :: string
  minimumBond :: nat
  expiration :: nat
  allowance :: nat
  collateral :: string
  decimals :: nat
  symbol :: string
  userBalance :: nat
  needsBondApproval :: bool
  noTransactions :: bool
  activeProposal :: bool
  proposalEvent :: "fullProposalEvent option"
  proposalExecuted :: bool

subsection \<open>Truthiness\<close>

text \<open>
  JavaScript's \<open>!x\<close> and \<open>x && y\<close> read the truthiness of a value. A boolean
  field is truthy when it is \<open>true\<close>, \<open>undefined\<close> is falsy, a string is truthy
  when it is not empty, and an object (a BigNumber, whatever its value) is truthy.
\<close>

definition truthyBool :: "bool option \<Rightarrow> bool" where
  "truthyBool v = (case v of None \<Rightarrow> False | Some b \<Rightarrow> b)"

definition truthyString :: "string option \<Rightarrow> bool" where
  "truthyString v = (case v of None \<Rightarrow> False | Some s \<Rightarrow> s \<noteq> [])"

definition truthyBigNumber :: "int option \<Rightarrow> bool" where
  "truthyBigNumber v = (case v of None \<Rightarrow> False | Some n \<Rightarrow> True)"

text \<open>
  \<open>x == 0\<close> on a BigNumber converts the object to a primitive through its
  \<open>toString\<close>, the decimal numeral, and compares that with \<open>0\<close> as a number;
  \<open>undefined == 0\<close> is false.
\<close>

definition looseEqualsZero :: "int option \<Rightarrow> bool" where
  "looseEqualsZero v = (case v of None \<Rightarrow> False | Some n \<Rightarrow> n = 0)"

section \<open>The state derivation of HandleOutcome.vue\<close>

datatype QuestionStates =
    error
  | noWalletConnection
  | loading
  | waitingForProposal
  | proposalApproved
  | proposalRejected
  | completelyExecuted
  | disputedButNotResolved
  | disputedResolvedValid

fun stateCode :: "QuestionStates \<Rightarrow> int" where
  "stateCode error = -1"
| "stateCode noWalletConnection = 0"
| "stateCode loading = 1"
| "stateCode waitingForProposal = 2"
| "stateCode proposalApproved = 3"
| "stateCode proposalRejected = 4"
| "stateCode completelyExecuted = 5"
| "stateCode disputedButNotResolved = 6"
| "stateCode disputedResolvedValid = 7"

text \<open>
  The computed property \<open>questionState\<close>. Its inputs are the three reactive values it
  reads: \<open>web3.value.account\<close>, \<open>loading.value\<close> and \<open>questionDetails.value\<close>
  (\<open>undefined\<close> until a reconciliation has succeeded). The branches are in the order of
  the source. The flag \<open>proposalExecuted\<close> of the status is not read.
\<close>

definition questionState ::
  "string option \<Rightarrow> bool \<Rightarrow> moduleDetails option \<Rightarrow> QuestionStates" where
  "questionState account loadingValue questionDetails =
     (if \<not> truthyString account then noWalletConnection
      else if loadingValue then loading
      else case questionDetails of
        None \<Rightarrow> error
      | Some details \<Rightarrow>
          (case proposalEvent details of
            None \<Rightarrow> waitingForProposal
          | Some ev \<Rightarrow>
              if truthyBool (isExpired ev) \<and> \<not> truthyBool (isSettled ev)
                then proposalApproved
              else if truthyBool (isSettled ev) \<and> \<not> truthyBool (isDisputed ev)
                then proposalApproved
              else if truthyBool (isSettled ev)
                then completelyExecuted
              else if truthyBool (isDisputed ev) \<and> \<not> truthyBigNumber (resolvedPrice ev)
                then waitingForProposal
              else if truthyBool (isDisputed ev) \<and> looseEqualsZero (resolvedPrice ev)
                then proposalRejected
              else error))"

section \<open>Numbers and strings of the engine\<close>

subsection \<open>\<open>Number(x)\<close> on a BigNumber\<close>

text \<open>
  \<open>Number(x)\<close> on a BigNumber object converts it through \<open>toString\<close>, its decimal
  numeral, and reads the numeral as an IEEE 754 double: the nearest double, ties to the
  even significand. For a natural number below \<open>2 ^ 53\<close> the double is the number
  itself; above, the number is rounded to 53 significant bits. The values are
  \<open>uint256\<close>, below the largest double, so the result is finite; it is given here as
  the natural number the double denotes.
\<close>

fun bitLength :: "nat \<Rightarrow> nat" where
  "bitLength n = (if n = 0 then 0 else Suc (bitLength (n div 2)))"

definition Number :: "nat \<Rightarrow> nat" where
  "Number n =
     (if n < 2 ^ 53 then n
      else
        let e = bitLength n - 53;
            q = n div 2 ^ e;
            r = n mod 2 ^ e;
            half = 2 ^ (e - 1)
        in (if r > half \<or> (r = half \<and> odd q) then q + 1 else q) * 2 ^ e)"

subsection \<open>\<open>toString\<close> on a BigNumber\<close>

definition digitChar :: "nat \<Rightarrow> char" where
  "digitChar d = ''0123456789'' ! d"

fun decimal :: "nat \<Rightarrow> string" where
  "decimal n = (if n < 10 then [digitChar n] else decimal (n div 10) @ [digitChar (n mod 10)])"

subsection \<open>Packing the ancillary data\<close>

text \<open>
  A model string is the sequence of the bytes of its UTF-8 encoding, so \<open>toUtf8Bytes\<close>
  keeps it. \<open>pack\<close> concatenates the bytes of its arguments without padding and
  returns them as a hex string, \<open>0x\<close> and two lower-case digits per byte. The inner
  \<open>pack(['string', 'string'], ['proposalHash', ':'])\<close> is passed on as \<open>bytes\<close>, so
  the outer \<open>pack\<close> reads its hex string back into the bytes it stands for.
  \<open>proposalHash.replace('0x', '')\<close> removes the first occurrence of \<open>0x\<close>.
\<close>

definition hexDigit :: "nat \<Rightarrow> char" where
  "hexDigit d = ''0123456789abcdef'' ! d"

definition hexlify :: "string \<Rightarrow> string" where
  "hexlify bytes =
     ''0x'' @ concat (map (\<lambda>b. [hexDigit (of_char b div 16), hexDigit (of_char b mod 16)]) bytes)"

definition toUtf8Bytes :: "string \<Rightarrow> string" where
  "toUtf8Bytes s = s"

fun replace0x :: "string \<Rightarrow> string" where
  "replace0x [] = []"
| "replace0x [c] = [c]"
| "replace0x (c # d # rest) =
     (if c = CHR ''0'' \<and> d = CHR ''x'' then rest else c # replace0x (d # rest))"

definition ancillaryDataOf :: "string \<Rightarrow> string" where
  "ancillaryDataOf hash =
     hexlify (toUtf8Bytes [] @ (toUtf8Bytes ''proposalHash'' @ toUtf8Bytes '':'')
       @ toUtf8Bytes (replace0x hash))"

section \<open>The chain and the libraries\<close>

text \<open>
  A transaction of the batch as \<open>getTransactions\<close> builds it: destination, operation,
  value and call data.
\<close>

record transaction =
  to :: string
  operation :: nat
  txValue :: string
  data :: string

text \<open>
  The functions of the ethers library the engine calls are parameters. \<open>getAddress\<close>
  is the address check of the ABI coder's address field; it throws (\<open>None\<close>) on a
  string that is not an address. \<open>abiEncode\<close> is the encoding of the tuple list once
  its addresses are accepted; the coders of the other fields may throw as well.
  \<open>toUtf8String\<close> throws on bytes that are not UTF-8.
\<close>

record ethers =
  getAddress :: "string \<Rightarrow> string option"
  abiEncode :: "transaction list \<Rightarrow> string option"
  keccak256 :: "string \<Rightarrow> string"
  toUtf8String :: "string \<Rightarrow> string option"

definition defaultAbiCoder_encode :: "ethers \<Rightarrow> transaction list \<Rightarrow> string option" where
  "defaultAbiCoder_encode lib transactions =
     (if list_ex (\<lambda>t. getAddress lib (to t) = None) transactions then None
      else abiEncode lib transactions)"

text \<open>
  What the contracts hold and have emitted. An event whose log could not be decoded has
  no \<open>args\<close>; the source reads every argument through \<open>event.args?.\<close>. The fields of
  the oracle request are the ones the engine reads.
\<close>

record moduleConfig =
  cfg_avatar :: string
  cfg_optimisticOracle :: string
  cfg_rules :: string
  cfg_bondAmount :: nat
  cfg_liveness :: nat

record proposePriceArgs =
  pp_requester :: string
  pp_identifier :: string
  pp_timestamp :: nat
  pp_ancillaryData :: string
  pp_expirationTimestamp :: nat

record oracleRequest =
  rq_disputer :: string
  rq_settled :: bool
  rq_resolvedPrice :: int
  rq_timestamp :: nat

record transactionsProposedArgs =
  tp_explanation :: string
  tp_proposalTime :: nat

record proposalExecutedArgs =
  ex_proposalHash :: string
  ex_proposalTime :: nat

text \<open>
  Every read is a request that may fail (\<open>None\<close>). The arguments are the ones of the
  call: the contract's address first, then the call's own.
\<close>

record chain =
  multicall :: "string \<Rightarrow> string \<Rightarrow> moduleConfig option"
  module_collateral :: "string \<Rightarrow> string option"
  erc20_symbol :: "string \<Rightarrow> string option"
  erc20_decimals :: "string \<Rightarrow> nat option"
  erc20_allowance :: "string \<Rightarrow> string \<Rightarrow> string \<Rightarrow> nat option"
  erc20_balanceOf :: "string \<Rightarrow> string \<Rightarrow> nat option"
  module_proposalHashes :: "string \<Rightarrow> string \<Rightarrow> nat option"
  oracle_ProposePrice :: "string \<Rightarrow> string \<Rightarrow> proposePriceArgs option list option"
  oracle_getRequest :: "string \<Rightarrow> string \<Rightarrow> string \<Rightarrow> nat \<Rightarrow> string \<Rightarrow> oracleRequest option"
  module_TransactionsProposed :: "string \<Rightarrow> transactionsProposedArgs option list option"
  module_ProposalExecuted :: "string \<Rightarrow> string \<Rightarrow> proposalExecutedArgs option list option"

datatype chainCall =
    Multicall string string
  | Collateral string
  | Symbol string
  | Decimals string
  | Allowance string string string
  | BalanceOf string string
  | ProposalHashes string string
  | QueryProposePrice string string
  | GetRequest string string string nat string
  | QueryTransactionsProposed string
  | QueryProposalExecuted string string

datatype failure =
    ReadFailed chainCall
  | EncodeFailed
  | InvalidUtf8
  | MissingArgs

subsection \<open>Asynchronous calls\<close>

text \<open>
  An asynchronous computation is the list of the chain calls it issued, in order, and
  its outcome: a rejection (\<open>Inl\<close>) or a value (\<open>Inr\<close>). \<open>await\<close> sequences two
  computations; a rejection ends the function, since the source catches nothing.
\<close>

type_synonym 'a async = "chainCall list \<times> (failure + 'a)"

definition resolve :: "'a \<Rightarrow> 'a async" where
  "resolve x = ([], Inr x)"

definition reject :: "failure \<Rightarrow> 'a async" where
  "reject e = ([], Inl e)"

definition await :: "'a async \<Rightarrow> ('a \<Rightarrow> 'b async) \<Rightarrow> 'b async" where
  "await m f =
     (case m of
        (calls, Inl e) \<Rightarrow> (calls, Inl e)
      | (calls, Inr x) \<Rightarrow> (case f x of (calls', r) \<Rightarrow> (calls @ calls', r)))"

definition request :: "chainCall \<Rightarrow> 'a option \<Rightarrow> 'a async" where
  "request c response =
     ([c], case response of None \<Rightarrow> Inl (ReadFailed c) | Some v \<Rightarrow> Inr v)"

text \<open>
  \<open>Promise.all\<close> over a mapped array: every call of the array has been issued when it
  is awaited; it rejects when one of them does, and keeps the order of the array.
\<close>

fun Promise_all :: "'a async list \<Rightarrow> 'a list async" where
  "Promise_all [] = ([], Inr [])"
| "Promise_all (m # ms) =
     (case Promise_all ms of (calls', rs) \<Rightarrow>
        (fst m @ calls',
         case snd m of
           Inl e \<Rightarrow> Inl e
         | Inr x \<Rightarrow> (case rs of Inl e \<Rightarrow> Inl e | Inr xs \<Rightarrow> Inr (x # xs))))"

section \<open>The reconciliation engine of umaModule.ts\<close>

record bondInfo =
  bi_collateral :: string
  bi_symbol :: string
  bi_decimals :: nat
  currentUserBondAllowance :: nat
  currentUserBalance :: nat

text \<open>
  \<open>getBondDetails\<close>: the collateral token of the module, its symbol and decimals, and
  for a connected account its allowance to the module and its balance; both are
  \<open>BigNumber.from(0)\<close> when \<open>web3Account.value\<close> is falsy, and then nothing is
  read.
\<close>

definition connectedAccount :: "string option \<Rightarrow> string option" where
  "connectedAccount web3Account = (if truthyString web3Account then web3Account else None)"

definition getBondDetails :: "chain \<Rightarrow> string option \<Rightarrow> string \<Rightarrow> bondInfo async" where
  "getBondDetails ch web3Account moduleAddress =
     await (request (Collateral moduleAddress) (module_collateral ch moduleAddress)) (\<lambda>erc20.
     await (request (Symbol erc20) (erc20_symbol ch erc20)) (\<lambda>sym.
     await (request (Decimals erc20) (erc20_decimals ch erc20)) (\<lambda>dec.
     await (case connectedAccount web3Account of
              Some owner \<Rightarrow> request (Allowance erc20 owner moduleAddress)
                              (erc20_allowance ch erc20 owner moduleAddress)
            | None \<Rightarrow> resolve 0) (\<lambda>allow.
     await (case connectedAccount web3Account of
              Some owner \<Rightarrow> request (BalanceOf erc20 owner) (erc20_balanceOf ch erc20 owner)
            | None \<Rightarrow> resolve 0) (\<lambda>bal.
     resolve \<lparr> bi_collateral = erc20, bi_symbol = sym, bi_decimals = dec,
               currentUserBondAllowance = allow, currentUserBalance = bal \<rparr>)))))"

text \<open>The test on the bond: both sides go through \<open>Number\<close>.\<close>

definition needsApproval :: "nat \<Rightarrow> nat \<Rightarrow> bool" where
  "needsApproval minBond currentAllowance =
     (Number minBond > 0 \<and> Number minBond > Number currentAllowance)"

text \<open>
  The filter on the oracle's \<open>ProposePrice\<close> events: the ancillary data as strings,
  the timestamps as the decimal strings of the two BigNumbers. An event without
  \<open>args\<close> gives \<open>undefined\<close> on the left of both comparisons and is dropped.
\<close>

definition matchesProposal :: "string \<Rightarrow> nat \<Rightarrow> proposePriceArgs option \<Rightarrow> bool" where
  "matchesProposal ancillaryData proposalHashTimestamp event =
     (case event of
        None \<Rightarrow> False
      | Some a \<Rightarrow> pp_ancillaryData a = ancillaryData
                  \<and> decimal (pp_timestamp a) = decimal proposalHashTimestamp)"

definition thisModuleProposalEvent ::
  "string \<Rightarrow> nat \<Rightarrow> proposePriceArgs option list \<Rightarrow> proposePriceArgs option list" where
  "thisModuleProposalEvent ancillaryData proposalHashTimestamp proposalEvents =
     filter (matchesProposal ancillaryData proposalHashTimestamp) proposalEvents"

text \<open>
  The callback on the oracle request of one matching event. \<open>now\<close> is
  \<open>Math.floor(Date.now() / 1000)\<close>.
\<close>

definition zeroAddress :: string where
  "zeroAddress = ''0x0000000000000000000000000000000000000000''"

definition fullEventOf ::
  "nat \<Rightarrow> string \<Rightarrow> proposePriceArgs \<Rightarrow> oracleRequest \<Rightarrow> fullProposalEvent" where
  "fullEventOf now hash a result =
     \<lparr> expirationTimestamp = Some (pp_expirationTimestamp a),
       isExpired = Some (now \<ge> Number (pp_expirationTimestamp a)),
       isDisputed = Some (if rq_disputer result = zeroAddress then False else True),
       isSettled = Some (rq_settled result),
       resolvedPrice = Some (rq_resolvedPrice result),
       proposalHash = Some hash,
       proposalTime = Some (rq_timestamp result) \<rparr>"

definition getFullEvent ::
  "chain \<Rightarrow> nat \<Rightarrow> string \<Rightarrow> string \<Rightarrow> proposePriceArgs option \<Rightarrow> fullProposalEvent async" where
  "getFullEvent ch now optimisticOracle hash event =
     (case event of
        None \<Rightarrow> reject MissingArgs
      | Some a \<Rightarrow>
          await (request
                   (GetRequest optimisticOracle (pp_requester a) (pp_identifier a)
                      (pp_timestamp a) (pp_ancillaryData a))
                   (oracle_getRequest ch optimisticOracle (pp_requester a) (pp_identifier a)
                      (pp_timestamp a) (pp_ancillaryData a)))
            (\<lambda>result. resolve (fullEventOf now hash a result)))"

text \<open>
  The filter on the module's \<open>TransactionsProposed\<close> events: the callback throws on an
  event without \<open>args\<close> and on an explanation that is not UTF-8, at the first such
  event in the order of the query.
\<close>

fun thisProposalTransactionsProposedEvents ::
  "ethers \<Rightarrow> string \<Rightarrow> transactionsProposedArgs option list
     \<Rightarrow> failure + transactionsProposedArgs list" where
  "thisProposalTransactionsProposedEvents lib explanation [] = Inr []"
| "thisProposalTransactionsProposedEvents lib explanation (event # events) =
     (case event of
        None \<Rightarrow> Inl MissingArgs
      | Some a \<Rightarrow>
          (case toUtf8String lib (tp_explanation a) of
             None \<Rightarrow> Inl InvalidUtf8
           | Some s \<Rightarrow>
               (case thisProposalTransactionsProposedEvents lib explanation events of
                  Inl e \<Rightarrow> Inl e
                | Inr kept \<Rightarrow> Inr (if s = explanation then a # kept else kept))))"

text \<open>
  \<open>proposalTimes.some(time => executionTimes.includes(time))\<close> on the decimal strings
  of the proposal times; an execution event without \<open>args\<close> contributes
  \<open>undefined\<close>.
\<close>

definition proposalExecutedOf ::
  "transactionsProposedArgs list \<Rightarrow> proposalExecutedArgs option list \<Rightarrow> bool" where
  "proposalExecutedOf proposed executionEvents =
     (let proposalTimes = map (\<lambda>tx. decimal (tp_proposalTime tx)) proposed;
          executionTimes = map (map_option (\<lambda>tx. decimal (ex_proposalTime tx))) executionEvents
      in list_ex (\<lambda>time. Some time \<in> set executionTimes) proposalTimes)"

text \<open>
  \<open>getModuleDetailsUma\<close>. \<open>web3Account\<close> is the connected account that
  \<open>getBondDetails\<close> reads, \<open>transactions\<close> is \<open>None\<close> for \<open>undefined\<close>.
\<close>

definition getModuleDetailsUma ::
  "ethers \<Rightarrow> chain \<Rightarrow> string option \<Rightarrow> nat \<Rightarrow> string \<Rightarrow> string \<Rightarrow> string
     \<Rightarrow> transaction list option \<Rightarrow> moduleDetails async" where
  "getModuleDetailsUma lib ch web3Account now network moduleAddress explanation transactions =
     await (request (Multicall network moduleAddress) (multicall ch network moduleAddress))
       (\<lambda>moduleDetails.
     await (getBondDetails ch web3Account moduleAddress) (\<lambda>bondDetails.
     let minBond = cfg_bondAmount moduleDetails;
         optimisticOracle = cfg_optimisticOracle moduleDetails;
         needsApprovalFlag = needsApproval minBond (currentUserBondAllowance bondDetails)
     in
     case transactions of
       None \<Rightarrow>
         resolve \<lparr> dao = cfg_avatar moduleDetails,
                   oracle' = cfg_optimisticOracle moduleDetails,
                   rules = cfg_rules moduleDetails,
                   minimumBond = minBond,
                   expiration = cfg_liveness moduleDetails,
                   allowance = currentUserBondAllowance bondDetails,
                   collateral = bi_collateral bondDetails,
                   decimals = bi_decimals bondDetails,
                   symbol = bi_symbol bondDetails,
                   userBalance = currentUserBalance bondDetails,
                   needsBondApproval = needsApprovalFlag,
                   noTransactions = True,
                   activeProposal = False,
                   proposalEvent = Some emptyObject,
                   proposalExecuted = False \<rparr>
     | Some txs \<Rightarrow>
         (case defaultAbiCoder_encode lib txs of
            None \<Rightarrow> reject EncodeFailed
          | Some encoded \<Rightarrow>
     let hash = keccak256 lib encoded;
         ancillaryData = ancillaryDataOf hash
     in
     await (request (ProposalHashes moduleAddress hash)
              (module_proposalHashes ch moduleAddress hash)) (\<lambda>currentProposalHashTimestamp.
     await (request (ProposalHashes moduleAddress hash)
              (module_proposalHashes ch moduleAddress hash)) (\<lambda>proposalHashTimestamp.
     let active = proposalHashTimestamp > 0 in
     await (request (QueryProposePrice optimisticOracle moduleAddress)
              (oracle_ProposePrice ch optimisticOracle moduleAddress)) (\<lambda>proposalEvents.
     await (Promise_all
              (map (getFullEvent ch now optimisticOracle hash)
                 (thisModuleProposalEvent ancillaryData proposalHashTimestamp proposalEvents)))
       (\<lambda>thisModuleFullProposalEvent.
     await (request (QueryTransactionsProposed moduleAddress)
              (module_TransactionsProposed ch moduleAddress)) (\<lambda>transactionsProposedEvents.
     await ([], thisProposalTransactionsProposedEvents lib explanation
                  transactionsProposedEvents) (\<lambda>proposed.
     await (request (QueryProposalExecuted moduleAddress hash)
              (module_ProposalExecuted ch moduleAddress hash)) (\<lambda>executionEvents.
     resolve \<lparr> dao = cfg_avatar moduleDetails,
               oracle' = cfg_optimisticOracle moduleDetails,
               rules = cfg_rules moduleDetails,
               minimumBond = minBond,
               expiration = cfg_liveness moduleDetails,
               allowance = currentUserBondAllowance bondDetails,
               collateral = bi_collateral bondDetails,
               decimals = bi_decimals bondDetails,
               symbol = bi_symbol bondDetails,
               userBalance = currentUserBalance bondDetails,
               needsBondApproval = needsApprovalFlag,
               noTransactions = False,
               activeProposal = active,
               proposalEvent = (case thisModuleFullProposalEvent of
                                  [] \<Rightarrow> None | first # others \<Rightarrow> Some first),
               proposalExecuted = proposalExecutedOf proposed executionEvents \<rparr>))))))))))"

section \<open>Vocabulary of the properties\<close>

text \<open>
  The reads of the first part of \<open>getModuleDetailsUma\<close>: the batched read of the
  module's configuration and the reads of \<open>getBondDetails\<close>. The other calls are the
  read of \<open>proposalHashes\<close>, the event queries and the oracle requests.
\<close>

fun configurationOrBondRead :: "chainCall \<Rightarrow> bool" where
  "configurationOrBondRead (Multicall network address) = True"
| "configurationOrBondRead (Collateral address) = True"
| "configurationOrBondRead (Symbol address) = True"
| "configurationOrBondRead (Decimals address) = True"
| "configurationOrBondRead (Allowance address owner spender) = True"
| "configurationOrBondRead (BalanceOf address owner) = True"
| "configurationOrBondRead (ProposalHashes address hash) = False"
| "configurationOrBondRead (QueryProposePrice address requester) = False"
| "configurationOrBondRead (GetRequest address requester identifier timestamp ancillaryData) = False"
| "configurationOrBondRead (QueryTransactionsProposed address) = False"
| "configurationOrBondRead (QueryProposalExecuted address hash) = False"

subsection \<open>A chain and a library to run the engine on\<close>

text \<open>
  Stand-ins with the types of the library's functions, small enough to evaluate: an
  address is accepted when it has 42 characters and starts with \<open>0x\<close>, the encoding
  concatenates destinations and call data, the digest is one hex digit of the length.
\<close>

definition exampleLib :: ethers where
  "exampleLib =
     \<lparr> getAddress = (\<lambda>s. if length s = 42 \<and> take 2 s = ''0x'' then Some s else None),
       abiEncode = (\<lambda>txs. Some (concat (map (\<lambda>t. to t @ data t) txs))),
       keccak256 = (\<lambda>bytes. ''0x'' @ [hexDigit (length bytes mod 16)]),
       toUtf8String = Some \<rparr>"

definition exampleBatch :: "transaction list" where
  "exampleBatch =
     [\<lparr> to = ''0x1111111111111111111111111111111111111111'', operation = 0,
        txValue = ''0'', data = ''0x'' \<rparr>]"

definition malformedBatch :: "transaction list" where
  "malformedBatch =
     [\<lparr> to = ''not-an-address'', operation = 0, txValue = ''0'', data = ''0x'' \<rparr>]"

definition exampleHash :: string where
  "exampleHash = ''0xc''"

text \<open>
  Five \<open>ProposePrice\<close> events of the module: one with the ancillary data of the batch
  and another timestamp, one with the timestamp of the batch and other ancillary data,
  one without \<open>args\<close>, and two that match both keys, with different expirations.
\<close>

definition exampleOracleEvents :: "proposePriceArgs option list" where
  "exampleOracleEvents =
     [Some \<lparr> pp_requester = ''module'', pp_identifier = ''ZODIAC'', pp_timestamp = 999,
              pp_ancillaryData = ancillaryDataOf exampleHash, pp_expirationTimestamp = 1500 \<rparr>,
      Some \<lparr> pp_requester = ''module'', pp_identifier = ''ZODIAC'', pp_timestamp = 1000,
              pp_ancillaryData = ''0x'', pp_expirationTimestamp = 1600 \<rparr>,
      Some \<lparr> pp_requester = ''module'', pp_identifier = ''ZODIAC'', pp_timestamp = 1000,
              pp_ancillaryData = ancillaryDataOf exampleHash, pp_expirationTimestamp = 2000 \<rparr>,
      None,
      Some \<lparr> pp_requester = ''module'', pp_identifier = ''ZODIAC'', pp_timestamp = 1000,
              pp_ancillaryData = ancillaryDataOf exampleHash, pp_expirationTimestamp = 3000 \<rparr>]"

text \<open>
  A chain on which the example batch was proposed at time 1000 and executed, with the
  given \<open>ProposePrice\<close> events of the oracle.
\<close>

definition exampleChain :: "proposePriceArgs option list \<Rightarrow> chain" where
  "exampleChain oracleEvents =
     \<lparr> multicall = (\<lambda>network address.
         Some \<lparr> cfg_avatar = ''dao'', cfg_optimisticOracle = ''oracle'', cfg_rules = ''rules'',
                 cfg_bondAmount = 10, cfg_liveness = 100 \<rparr>),
       module_collateral = (\<lambda>address. Some ''token''),
       erc20_symbol = (\<lambda>address. Some ''WETH''),
       erc20_decimals = (\<lambda>address. Some 18),
       erc20_allowance = (\<lambda>address owner spender. Some 4),
       erc20_balanceOf = (\<lambda>address owner. Some 50),
       module_proposalHashes = (\<lambda>address hash. Some (if hash = exampleHash then 1000 else 0)),
       oracle_ProposePrice = (\<lambda>address requester. Some oracleEvents),
       oracle_getRequest = (\<lambda>address requester identifier timestamp ancillaryData.
         Some \<lparr> rq_disputer = zeroAddress, rq_settled = True, rq_resolvedPrice = 1,
                 rq_timestamp = timestamp \<rparr>),
       module_TransactionsProposed = (\<lambda>address.
         Some [Some \<lparr> tp_explanation = ''F'', tp_proposalTime = 500 \<rparr>,
               Some \<lparr> tp_explanation = ''E'', tp_proposalTime = 1000 \<rparr>]),
       module_ProposalExecuted = (\<lambda>address hash.
         Some [Some \<lparr> ex_proposalHash = hash, ex_proposalTime = 1000 \<rparr>]) \<rparr>"

text \<open>
  The status the engine returns on the example chain for the example batch: the first
  matching event, expired at 2500, settled without a disputer, and executed.
\<close>

definition exampleStatus :: moduleDetails where
  "exampleStatus =
     \<lparr> dao = ''dao'', oracle' = ''oracle'', rules = ''rules'', minimumBond = 10,
       expiration = 100, allowance = 4, collateral = ''token'', decimals = 18,
       symbol = ''WETH'', userBalance = 50, needsBondApproval = True,
       noTransactions = False, activeProposal = True,
       proposalEvent = Some
         \<lparr> expirationTimestamp = Some 2000, isExpired = Some True, isDisputed = Some False,
           isSettled = Some True, resolvedPrice = Some 1, proposalHash = Some exampleHash,
           proposalTime = Some 1000 \<rparr>,
       proposalExecuted = True \<rparr>"

text \<open>Statuses and event objects that differ from the example in the fields given.\<close>

definition statusWith :: "fullProposalEvent option \<Rightarrow> moduleDetails" where
  "statusWith ev = exampleStatus \<lparr> proposalEvent := ev \<rparr>"

definition eventWith :: "bool \<Rightarrow> bool \<Rightarrow> bool \<Rightarrow> int option \<Rightarrow> fullProposalEvent" where
  "eventWith expired disputed settled price =
     \<lparr> expirationTimestamp = Some 2000, isExpired = Some expired, isDisputed = Some disputed,
       isSettled = Some settled, resolvedPrice = price, proposalHash = Some exampleHash,
       proposalTime = Some 1000 \<rparr>"

section \<open>Basic facts\<close>

declare bitLength.simps [simp del]
declare decimal.simps [simp del]

subsection \<open>Decimal strings and doubles\<close>

lemma digitChar_inj: "a < 10 \<Longrightarrow> b < 10 \<Longrightarrow> digitChar a = digitChar b \<Longrightarrow> a = b"
  unfolding digitChar_def
  by (subst (asm) nth_eq_iff_index_eq) simp_all

lemma decimal_nonempty: "decimal n \<noteq> []"
  by (subst decimal.simps) simp

text \<open>Two numbers with the same decimal string are equal.\<close>

lemma decimal_inj: "decimal m = decimal n \<Longrightarrow> m = n"
proof (induction m arbitrary: n rule: decimal.induct)
  case (1 m)
  show ?case
  proof (cases "m < 10")
    case mlt: True
    show ?thesis
    proof (cases "n < 10")
      case True
      with mlt "1.prems" show ?thesis
        by (subst (asm) decimal.simps, subst (asm) (2) decimal.simps)
           (simp add: digitChar_inj)
    next
      case False
      with mlt "1.prems" decimal_nonempty [of "n div 10"] show ?thesis
        by (subst (asm) decimal.simps, subst (asm) (2) decimal.simps)
           (cases "decimal (n div 10)"; simp)
    qed
  next
    case mge: False
    show ?thesis
    proof (cases "n < 10")
      case True
      with mge "1.prems" decimal_nonempty [of "m div 10"] show ?thesis
        by (subst (asm) decimal.simps, subst (asm) (2) decimal.simps)
           (cases "decimal (m div 10)"; simp)
    next
      case False
      from mge False "1.prems"
      have "decimal (m div 10) @ [digitChar (m mod 10)]
          = decimal (n div 10) @ [digitChar (n mod 10)]"
        by (subst (asm) decimal.simps, subst (asm) (2) decimal.simps) simp
      then have init_eq: "decimal (m div 10) = decimal (n div 10)"
        and last_eq: "digitChar (m mod 10) = digitChar (n mod 10)"
        by simp_all
      from "1.IH" mge init_eq have "m div 10 = n div 10" by simp
      moreover from last_eq have "m mod 10 = n mod 10" by (intro digitChar_inj) simp_all
      ultimately show ?thesis by (metis div_mult_mod_eq)
    qed
  qed
qed

lemma decimal_eq_iff [simp]: "decimal m = decimal n \<longleftrightarrow> m = n"
  using decimal_inj by blast

lemma Number_small: "n < 2 ^ 53 \<Longrightarrow> Number n = n"
  by (simp add: Number_def)

lemma bitLength_eq: "2 ^ k \<le> n \<Longrightarrow> n < 2 ^ Suc k \<Longrightarrow> bitLength n = Suc k"
proof (induction k arbitrary: n)
  case 0
  then have "n = 1" by simp
  then show ?case by (simp add: bitLength.simps)
next
  case (Suc k)
  then have "2 ^ k \<le> n div 2" "n div 2 < 2 ^ Suc k" by auto
  then have "bitLength (n div 2) = Suc k" by (rule Suc.IH)
  moreover from Suc.prems have "n \<noteq> 0" by auto
  ultimately show ?case by (subst bitLength.simps) simp
qed

lemma ancillaryDataOf_not_empty [simp]:
  "ancillaryDataOf h \<noteq> ''0x''" "''0x'' \<noteq> ancillaryDataOf h"
  by (simp_all add: ancillaryDataOf_def hexlify_def toUtf8Bytes_def)

subsection \<open>Asynchronous calls\<close>

lemma await_Inr:
  "await m f = (calls, Inr y) \<longleftrightarrow>
     (\<exists>c1 x c2. m = (c1, Inr x) \<and> f x = (c2, Inr y) \<and> calls = c1 @ c2)"
  by (cases m; cases "snd m") (auto simp: await_def split: prod.splits)

lemma request_Inr:
  "request c response = (calls, Inr v) \<longleftrightarrow> response = Some v \<and> calls = [c]"
  by (auto simp: request_def split: option.splits)

lemma resolve_eq: "resolve x = (calls, r) \<longleftrightarrow> calls = [] \<and> r = Inr x"
  by (auto simp: resolve_def)

lemma reject_eq: "reject e = (calls, r) \<longleftrightarrow> calls = [] \<and> r = Inl e"
  by (auto simp: reject_def)

lemma Promise_all_Inr:
  "Promise_all ms = (calls, Inr ys) \<Longrightarrow>
     list_all2 (\<lambda>m y. snd m = Inr y) ms ys \<and> calls = concat (map fst ms)"
  by (induction ms arbitrary: calls ys) (auto split: prod.splits sum.splits)

subsection \<open>The parts of the engine\<close>

lemma getBondDetails_calls:
  "list_all configurationOrBondRead (fst (getBondDetails ch account moduleAddress))"
  by (auto simp: getBondDetails_def await_def request_def resolve_def
        split: option.splits prod.splits)

lemma matchesProposal_iff:
  "matchesProposal ancillaryData ts ev \<longleftrightarrow>
     (\<exists>a. ev = Some a \<and> pp_ancillaryData a = ancillaryData \<and> pp_timestamp a = ts)"
  by (cases ev) (auto simp: matchesProposal_def)

lemma getFullEvent_Inr:
  "snd (getFullEvent ch now orc h ev) = Inr y \<Longrightarrow>
     \<exists>a r. ev = Some a
       \<and> oracle_getRequest ch orc (pp_requester a) (pp_identifier a) (pp_timestamp a)
           (pp_ancillaryData a) = Some r
       \<and> y = fullEventOf now h a r"
  by (cases ev)
     (auto simp: getFullEvent_def reject_def await_def request_def resolve_def
        split: option.splits)

lemma explanation_filter_step:
  "thisProposalTransactionsProposedEvents lib explanation (ev # evs) = Inr kept \<Longrightarrow>
     \<exists>a s rest. ev = Some a \<and> toUtf8String lib (tp_explanation a) = Some s
        \<and> thisProposalTransactionsProposedEvents lib explanation evs = Inr rest
        \<and> kept = (if s = explanation then a # rest else rest)"
  by (auto split: option.splits sum.splits)

lemma explanation_filter_mem:
  "thisProposalTransactionsProposedEvents lib explanation events = Inr kept \<Longrightarrow>
     a \<in> set kept \<longleftrightarrow>
       Some a \<in> set events \<and> toUtf8String lib (tp_explanation a) = Some explanation"
proof (induction events arbitrary: kept)
  case Nil
  then show ?case by simp
next
  case (Cons ev evs)
  from explanation_filter_step [OF Cons.prems]
  obtain b s rest where ev: "ev = Some b"
    and s: "toUtf8String lib (tp_explanation b) = Some s"
    and rest: "thisProposalTransactionsProposedEvents lib explanation evs = Inr rest"
    and kept: "kept = (if s = explanation then b # rest else rest)"
    by blast
  have IH: "a \<in> set rest \<longleftrightarrow>
      Some a \<in> set evs \<and> toUtf8String lib (tp_explanation a) = Some explanation"
    by (rule Cons.IH [OF rest])
  show ?case
  proof (cases "s = explanation")
    case True
    with ev s kept IH show ?thesis by auto
  next
    case False
    with ev s kept IH show ?thesis by auto
  qed
qed

text \<open>The filter on the explanations throws only on an event it cannot decode.\<close>

lemma explanation_filter_total:
  "\<forall>e \<in> set events. \<exists>a str. e = Some a \<and> toUtf8String lib (tp_explanation a) = Some str
     \<Longrightarrow> \<exists>kept. thisProposalTransactionsProposedEvents lib explanation events = Inr kept"
proof (induction events)
  case Nil
  then show ?case by simp
next
  case (Cons ev evs)
  then obtain a str kept where "ev = Some a"
    and "toUtf8String lib (tp_explanation a) = Some str"
    and "thisProposalTransactionsProposedEvents lib explanation evs = Inr kept"
    by auto
  then show ?case by simp
qed

lemma proposalExecutedOf_iff:
  "proposalExecutedOf proposed executionEvents \<longleftrightarrow>
     (\<exists>p x. p \<in> set proposed \<and> Some x \<in> set executionEvents
        \<and> ex_proposalTime x = tp_proposalTime p)"
  by (auto simp: proposalExecutedOf_def list_ex_iff image_iff map_option_case
        split: option.splits)
     (metis option.simps(5) decimal_eq_iff)+

text \<open>What a run on a defined batch that returns a status has read and computed.\<close>

lemma getModuleDetailsUma_Some_Inr:
  assumes "getModuleDetailsUma lib ch account now network moduleAddress explanation
             (Some txs) = (calls, Inr s)"
  obtains cfg bcalls bd enc ts evs gcalls full tpe proposed exe where
    "multicall ch network moduleAddress = Some cfg"
    "getBondDetails ch account moduleAddress = (bcalls, Inr bd)"
    "defaultAbiCoder_encode lib txs = Some enc"
    "module_proposalHashes ch moduleAddress (keccak256 lib enc) = Some ts"
    "oracle_ProposePrice ch (cfg_optimisticOracle cfg) moduleAddress = Some evs"
    "Promise_all (map (getFullEvent ch now (cfg_optimisticOracle cfg) (keccak256 lib enc))
        (thisModuleProposalEvent (ancillaryDataOf (keccak256 lib enc)) ts evs))
       = (gcalls, Inr full)"
    "module_TransactionsProposed ch moduleAddress = Some tpe"
    "thisProposalTransactionsProposedEvents lib explanation tpe = Inr proposed"
    "module_ProposalExecuted ch moduleAddress (keccak256 lib enc) = Some exe"
    "proposalExecuted s = proposalExecutedOf proposed exe"
    "proposalEvent s = (case full of [] \<Rightarrow> None | first # others \<Rightarrow> Some first)"
    "activeProposal s = (ts > 0)"
    "noTransactions s = False"
    "calls = Multicall network moduleAddress # bcalls
       @ [ProposalHashes moduleAddress (keccak256 lib enc),
          ProposalHashes moduleAddress (keccak256 lib enc),
          QueryProposePrice (cfg_optimisticOracle cfg) moduleAddress]
       @ gcalls
       @ [QueryTransactionsProposed moduleAddress,
          QueryProposalExecuted moduleAddress (keccak256 lib enc)]"
  using assms unfolding getModuleDetailsUma_def Let_def
  by (auto simp: await_Inr request_Inr resolve_eq reject_eq split: option.splits)

text \<open>Conversely, a run on a defined batch returns a status when its reads succeed.\<close>

lemma getModuleDetailsUma_returns:
  assumes "multicall ch network moduleAddress = Some cfg"
    and "getBondDetails ch account moduleAddress = (bondCalls, Inr bondDetails)"
    and "defaultAbiCoder_encode lib txs = Some encoded"
    and "module_proposalHashes ch moduleAddress (keccak256 lib encoded) = Some ts"
    and "oracle_ProposePrice ch (cfg_optimisticOracle cfg) moduleAddress = Some events"
    and "Promise_all (map (getFullEvent ch now (cfg_optimisticOracle cfg) (keccak256 lib encoded))
           (thisModuleProposalEvent (ancillaryDataOf (keccak256 lib encoded)) ts events))
         = (requestCalls, Inr full)"
    and "module_TransactionsProposed ch moduleAddress = Some proposedEvents"
    and "thisProposalTransactionsProposedEvents lib explanation proposedEvents = Inr proposed"
    and "module_ProposalExecuted ch moduleAddress (keccak256 lib encoded) = Some executionEvents"
  shows "\<exists>calls s.
     getModuleDetailsUma lib ch account now network moduleAddress explanation (Some txs)
       = (calls, Inr s)"
  using assms
  by (simp add: getModuleDetailsUma_def await_def request_def resolve_def Let_def)

lemma needsApproval_exact:
  "minBond < 2 ^ 53 \<Longrightarrow> currentAllowance < 2 ^ 53 \<Longrightarrow>
     needsApproval minBond currentAllowance \<longleftrightarrow> minBond > 0 \<and> minBond > currentAllowance"
  by (simp add: needsApproval_def Number_small)

lemma needsApproval_same: "needsApproval minBond minBond = False"
  by (simp add: needsApproval_def)

lemma getModuleDetailsUma_None:
  "getModuleDetailsUma lib ch account now network moduleAddress explanation None
   = await (request (Multicall network moduleAddress) (multicall ch network moduleAddress))
       (\<lambda>cfg. await (getBondDetails ch account moduleAddress) (\<lambda>bd.
          resolve \<lparr> dao = cfg_avatar cfg, oracle' = cfg_optimisticOracle cfg,
            rules = cfg_rules cfg, minimumBond = cfg_bondAmount cfg,
            expiration = cfg_liveness cfg, allowance = currentUserBondAllowance bd,
            collateral = bi_collateral bd, decimals = bi_decimals bd, symbol = bi_symbol bd,
            userBalance = currentUserBalance bd,
            needsBondApproval = needsApproval (cfg_bondAmount cfg) (currentUserBondAllowance bd),
            noTransactions = True, activeProposal = False,
            proposalEvent = Some emptyObject, proposalExecuted = False \<rparr>))"
  by (simp add: getModuleDetailsUma_def Let_def)

lemma getModuleDetailsUma_malformed:
  assumes "defaultAbiCoder_encode lib txs = None"
  shows "getModuleDetailsUma lib ch account now network moduleAddress explanation (Some txs)
   = await (request (Multicall network moduleAddress) (multicall ch network moduleAddress))
       (\<lambda>cfg. await (getBondDetails ch account moduleAddress) (\<lambda>bd. reject EncodeFailed))"
  by (simp add: getModuleDetailsUma_def Let_def assms)

text \<open>The calls of the first part, whatever follows them without a call.\<close>

lemma first_part_calls:
  assumes "await (request (Multicall network moduleAddress) response)
             (\<lambda>cfg. await (getBondDetails ch account moduleAddress) (\<lambda>bd. (([], k cfg bd)))) = (calls, r)"
  shows "calls \<noteq> [] \<and> hd calls = Multicall network moduleAddress
           \<and> list_all configurationOrBondRead calls"
proof (cases response)
  case None
  with assms show ?thesis by (auto simp: await_def request_def)
next
  case (Some cfg)
  obtain bcalls br where b: "getBondDetails ch account moduleAddress = (bcalls, br)"
    by (cases "getBondDetails ch account moduleAddress")
  from getBondDetails_calls [of ch account moduleAddress] b
  have "list_all configurationOrBondRead bcalls" by simp
  with assms Some b show ?thesis
    by (cases br) (auto simp: await_def request_def)
qed

lemma first_part_result:
  assumes "await (request (Multicall network moduleAddress) response)
             (\<lambda>cfg. await (getBondDetails ch account moduleAddress) (\<lambda>bd. (([], k cfg bd)))) = (calls, r)"
    and "response = Some cfg"
    and "getBondDetails ch account moduleAddress = (bcalls, Inr bd)"
  shows "r = k cfg bd"
  using assms by (auto simp: await_def request_def)

lemma first_part_Inr:
  assumes "await (request (Multicall network moduleAddress) response)
             (\<lambda>cfg. await (getBondDetails ch account moduleAddress) (\<lambda>bd. (([], k cfg bd)))) = (calls, Inr s)"
  shows "\<exists>cfg bcalls bd. response = Some cfg
           \<and> getBondDetails ch account moduleAddress = (bcalls, Inr bd) \<and> k cfg bd = Inr s"
  using assms by (auto simp: await_Inr request_Inr)

subsection \<open>Runs on the example chain\<close>

lemmas example_defs =
  getModuleDetailsUma_def getBondDetails_def connectedAccount_def await_def request_def
  resolve_def reject_def
  exampleLib_def exampleBatch_def malformedBatch_def exampleChain_def exampleOracleEvents_def
  defaultAbiCoder_encode_def thisModuleProposalEvent_def matchesProposal_def getFullEvent_def
  fullEventOf_def truthyString_def needsApproval_def Number_small proposalExecutedOf_def
  hexDigit_def zeroAddress_def Let_def

lemma example_encode:
  "defaultAbiCoder_encode exampleLib exampleBatch
     = Some ''0x11111111111111111111111111111111111111110x''"
  by (simp add: example_defs)

lemma example_keccak:
  "keccak256 exampleLib ''0x11111111111111111111111111111111111111110x'' = exampleHash"
  by (simp add: example_defs exampleHash_def)

lemma example_run:
  "getModuleDetailsUma exampleLib (exampleChain exampleOracleEvents) (Some ''alice'') 2500 ''1''
     ''module'' ''E'' (Some exampleBatch)
   = ([Multicall ''1'' ''module'', Collateral ''module'', Symbol ''token'', Decimals ''token'',
       Allowance ''token'' ''alice'' ''module'', BalanceOf ''token'' ''alice'',
       ProposalHashes ''module'' exampleHash, ProposalHashes ''module'' exampleHash,
       QueryProposePrice ''oracle'' ''module'',
       GetRequest ''oracle'' ''module'' ''ZODIAC'' 1000 (ancillaryDataOf exampleHash),
       GetRequest ''oracle'' ''module'' ''ZODIAC'' 1000 (ancillaryDataOf exampleHash),
       QueryTransactionsProposed ''module'', QueryProposalExecuted ''module'' exampleHash],
      Inr exampleStatus)"
  by (simp add: example_defs exampleStatus_def exampleHash_def [symmetric])

lemma lagging_run:
  "getModuleDetailsUma exampleLib (exampleChain []) (Some ''alice'') 2500 ''1''
     ''module'' ''E'' (Some exampleBatch)
   = ([Multicall ''1'' ''module'', Collateral ''module'', Symbol ''token'', Decimals ''token'',
       Allowance ''token'' ''alice'' ''module'', BalanceOf ''token'' ''alice'',
       ProposalHashes ''module'' exampleHash, ProposalHashes ''module'' exampleHash,
       QueryProposePrice ''oracle'' ''module'',
       QueryTransactionsProposed ''module'', QueryProposalExecuted ''module'' exampleHash],
      Inr (exampleStatus \<lparr> proposalEvent := None \<rparr>))"
  by (simp add: example_defs exampleStatus_def exampleHash_def [symmetric])

lemma empty_run:
  "getModuleDetailsUma exampleLib (exampleChain exampleOracleEvents) (Some ''alice'') 2500 ''1''
     ''module'' ''E'' (Some [])
   = ([Multicall ''1'' ''module'', Collateral ''module'', Symbol ''token'', Decimals ''token'',
       Allowance ''token'' ''alice'' ''module'', BalanceOf ''token'' ''alice'',
       ProposalHashes ''module'' ''0x0'', ProposalHashes ''module'' ''0x0'',
       QueryProposePrice ''oracle'' ''module'',
       QueryTransactionsProposed ''module'', QueryProposalExecuted ''module'' ''0x0''],
      Inr (exampleStatus \<lparr> activeProposal := False, proposalEvent := None \<rparr>))"
  by (simp add: example_defs exampleStatus_def exampleHash_def)

lemma undefined_run:
  "getModuleDetailsUma exampleLib (exampleChain exampleOracleEvents) (Some ''alice'') 2500 ''1''
     ''module'' ''E'' None
   = ([Multicall ''1'' ''module'', Collateral ''module'', Symbol ''token'', Decimals ''token'',
       Allowance ''token'' ''alice'' ''module'', BalanceOf ''token'' ''alice''],
      Inr (exampleStatus \<lparr> noTransactions := True, activeProposal := False,
             proposalEvent := Some emptyObject, proposalExecuted := False \<rparr>))"
  by (simp add: example_defs exampleStatus_def)

lemma malformed_run:
  "getModuleDetailsUma exampleLib (exampleChain exampleOracleEvents) (Some ''alice'') 2500 ''1''
     ''module'' ''E'' (Some malformedBatch)
   = ([Multicall ''1'' ''module'', Collateral ''module'', Symbol ''token'', Decimals ''token'',
       Allowance ''token'' ''alice'' ''module'', BalanceOf ''token'' ''alice''],
      Inl EncodeFailed)"
  by (simp add: example_defs)

lemmas qs_defs = questionState_def truthyString_def truthyBool_def truthyBigNumber_def
  looseEqualsZero_def statusWith_def eventWith_def exampleStatus_def emptyObject_def

section \<open>Properties of the state derivation\<close>

lemma questionState_ignores_proposalExecuted:
  "questionState account loadingValue (Some (details \<lparr> proposalExecuted := flag \<rparr>))
     = questionState account loadingValue (Some details)"
  by (simp add: questionState_def)

lemma questionState_cases:
  "questionState account loadingValue questionDetails \<in>
     {error, noWalletConnection, loading, waitingForProposal, proposalApproved,
      proposalRejected, completelyExecuted}"
proof (cases "truthyString account")
  case False
  then show ?thesis by (simp add: questionState_def)
next
  case wallet: True
  show ?thesis
  proof (cases loadingValue)
    case True
    with wallet show ?thesis by (simp add: questionState_def)
  next
    case notLoading: False
    show ?thesis
    proof (cases questionDetails)
      case None
      with wallet notLoading show ?thesis by (simp add: questionState_def)
    next
      case (Some details)
      show ?thesis
      proof (cases "proposalEvent details")
        case None
        with wallet notLoading Some show ?thesis by (simp add: questionState_def)
      next
        case (Some ev)
        with wallet notLoading \<open>questionDetails = Some details\<close> show ?thesis
          by (simp add: questionState_def)
      qed
    qed
  qed
qed

text \<open>
  C10. Whatever the account, the loading flag and the status are, \<open>questionState\<close>
  returns one of seven states, each of which some input reaches: \<open>error\<close>,
  \<open>noWalletConnection\<close>, \<open>loading\<close>, \<open>waitingForProposal\<close>,
  \<open>proposalApproved\<close>, \<open>proposalRejected\<close> and \<open>completelyExecuted\<close>. The two
  other declared states, \<open>disputedButNotResolved\<close> and \<open>disputedResolvedValid\<close>,
  are never returned.
\<close>

theorem questionState_values:
  "range (\<lambda>(account, loadingValue, questionDetails).
       questionState account loadingValue questionDetails)
     = {error, noWalletConnection, loading, waitingForProposal, proposalApproved,
        proposalRejected, completelyExecuted}
   \<and> questionState account loadingValue questionDetails \<noteq> disputedButNotResolved
   \<and> questionState account loadingValue questionDetails \<noteq> disputedResolvedValid"
proof -
  have sub: "\<And>a l d. questionState a l d \<in>
     {error, noWalletConnection, loading, waitingForProposal, proposalApproved,
      proposalRejected, completelyExecuted}"
    by (rule questionState_cases)
  have e1: "questionState (Some ''alice'') False None = error"
    and e2: "questionState None False None = noWalletConnection"
    and e3: "questionState (Some ''alice'') True None = loading"
    and e4: "questionState (Some ''alice'') False (Some (statusWith None)) = waitingForProposal"
    and e5: "questionState (Some ''alice'') False
               (Some (statusWith (Some (eventWith True False False (Some 0))))) = proposalApproved"
    and e6: "questionState (Some ''alice'') False
               (Some (statusWith (Some (eventWith False True False (Some 0))))) = proposalRejected"
    and e7: "questionState (Some ''alice'') False
               (Some (statusWith (Some (eventWith False True True (Some 0))))) = completelyExecuted"
    by (simp_all add: qs_defs)
  have "range (\<lambda>(a, l, d). questionState a l d)
     = {error, noWalletConnection, loading, waitingForProposal, proposalApproved,
        proposalRejected, completelyExecuted}" (is "?L = ?R")
  proof
    show "?L \<subseteq> ?R" using sub by auto
    have "error \<in> ?L"
      by (rule range_eqI [of _ _ "(Some ''alice'', False, None)"]) (simp add: e1)
    moreover have "noWalletConnection \<in> ?L"
      by (rule range_eqI [of _ _ "(None, False, None)"]) (simp add: e2)
    moreover have "loading \<in> ?L"
      by (rule range_eqI [of _ _ "(Some ''alice'', True, None)"]) (simp add: e3)
    moreover have "waitingForProposal \<in> ?L"
      by (rule range_eqI [of _ _ "(Some ''alice'', False, Some (statusWith None))"]) (simp add: e4)
    moreover have "proposalApproved \<in> ?L"
      by (rule range_eqI [of _ _ "(Some ''alice'', False, Some (statusWith (Some (eventWith True False False (Some 0)))))"]) (simp add: e5)
    moreover have "proposalRejected \<in> ?L"
      by (rule range_eqI [of _ _ "(Some ''alice'', False, Some (statusWith (Some (eventWith False True False (Some 0)))))"]) (simp add: e6)
    moreover have "completelyExecuted \<in> ?L"
      by (rule range_eqI [of _ _ "(Some ''alice'', False, Some (statusWith (Some (eventWith False True True (Some 0)))))"]) (simp add: e7)
    ultimately show "?R \<subseteq> ?L" by simp
  qed
  moreover from sub [of account loadingValue questionDetails]
  have "questionState account loadingValue questionDetails \<noteq> disputedButNotResolved"
    "questionState account loadingValue questionDetails \<noteq> disputedResolvedValid"
    by auto
  ultimately show ?thesis by simp
qed

text \<open>
  C1. The comments of the source say that a proposal settled without a disputer is
  approved when it has not been executed and executed when it has. The code reads
  neither \<open>proposalExecuted\<close> nor any other execution flag: for the status that the
  engine returns on the example chain, which is settled, not disputed and executed, the
  state is \<open>proposalApproved\<close>, the same as for the status with the flag cleared
  (\<open>questionState_ignores_proposalExecuted\<close> for every status).
\<close>

theorem executed_flag_is_not_read:
  "snd (getModuleDetailsUma exampleLib (exampleChain exampleOracleEvents) (Some ''alice'') 2500
          ''1'' ''module'' ''E'' (Some exampleBatch)) = Inr exampleStatus
   \<and> Option.bind (proposalEvent exampleStatus) isSettled = Some True
   \<and> Option.bind (proposalEvent exampleStatus) isDisputed = Some False
   \<and> proposalExecuted exampleStatus = True
   \<and> questionState (Some ''alice'') False (Some exampleStatus) = proposalApproved
   \<and> questionState (Some ''alice'') False (Some (exampleStatus \<lparr> proposalExecuted := False \<rparr>))
       = proposalApproved"
  by (simp add: example_run) (simp add: qs_defs)

text \<open>
  C7. For a connected wallet, a finished load and a status whose event is disputed,
  not settled and not expired-and-unsettled: a resolved price of zero gives
  \<open>proposalRejected\<close>, an undefined resolved price gives \<open>waitingForProposal\<close>. The
  engine sets \<open>isDisputed\<close> exactly when the disputer of the oracle request is not the
  zero address.
\<close>

theorem disputed_unsettled_states:
  assumes "truthyString account" and "\<not> loadingValue"
    and "proposalEvent details = Some ev"
    and "isDisputed ev = Some True"
    and "\<not> (truthyBool (isExpired ev) \<and> \<not> truthyBool (isSettled ev))"
    and "\<not> truthyBool (isSettled ev)"
  shows "(resolvedPrice ev = Some 0 \<longrightarrow>
            questionState account loadingValue (Some details) = proposalRejected)
       \<and> (resolvedPrice ev = None \<longrightarrow>
            questionState account loadingValue (Some details) = waitingForProposal)
       \<and> isDisputed (fullEventOf now hash a result) = Some (rq_disputer result \<noteq> zeroAddress)"
  using assms
  by (simp add: questionState_def truthyBool_def truthyBigNumber_def looseEqualsZero_def
        fullEventOf_def)

theorem disputed_unsettled_states_witness:
  "questionState (Some ''alice'') False
     (Some (statusWith (Some (eventWith False True False (Some 0))))) = proposalRejected
   \<and> questionState (Some ''alice'') False
     (Some (statusWith (Some (eventWith False True False None)))) = waitingForProposal
   \<and> isDisputed (fullEventOf 2500 exampleHash
        \<lparr> pp_requester = ''module'', pp_identifier = ''ZODIAC'', pp_timestamp = 1000,
          pp_ancillaryData = ancillaryDataOf exampleHash, pp_expirationTimestamp = 2000 \<rparr>
        \<lparr> rq_disputer = ''0x2222222222222222222222222222222222222222'', rq_settled = False,
          rq_resolvedPrice = 0, rq_timestamp = 1000 \<rparr>) = Some True"
  using
    disputed_unsettled_states [of "Some ''alice''" False
      "statusWith (Some (eventWith False True False (Some 0)))"
      "eventWith False True False (Some 0)" 2500 exampleHash
      "\<lparr> pp_requester = ''module'', pp_identifier = ''ZODIAC'', pp_timestamp = 1000,
         pp_ancillaryData = ancillaryDataOf exampleHash, pp_expirationTimestamp = 2000 \<rparr>"
      "\<lparr> rq_disputer = ''0x2222222222222222222222222222222222222222'', rq_settled = False,
         rq_resolvedPrice = 0, rq_timestamp = 1000 \<rparr>"]
    disputed_unsettled_states [of "Some ''alice''" False
      "statusWith (Some (eventWith False True False None))"
      "eventWith False True False None" 2500 exampleHash
      "\<lparr> pp_requester = ''module'', pp_identifier = ''ZODIAC'', pp_timestamp = 1000,
         pp_ancillaryData = ancillaryDataOf exampleHash, pp_expirationTimestamp = 2000 \<rparr>"
      "\<lparr> rq_disputer = ''0x2222222222222222222222222222222222222222'', rq_settled = False,
         rq_resolvedPrice = 0, rq_timestamp = 1000 \<rparr>"]
  by (simp add: truthyString_def truthyBool_def statusWith_def eventWith_def exampleStatus_def
        zeroAddress_def)

section \<open>Properties of the reconciliation engine\<close>

text \<open>
  C6. \<open>needsBondApproval\<close> compares the bond and the allowance after \<open>Number\<close>,
  that is as doubles. A bond of \<open>10 ^ 18 + 1\<close> and an allowance of \<open>10 ^ 18\<close> round
  to the same double, so the flag is false although the bond is positive and exceeds the
  allowance. Below \<open>2 ^ 53\<close> the comparison is exact (\<open>needsApproval_exact\<close>),
  and after approving exactly the bond the flag is false (\<open>needsApproval_same\<close>).
\<close>

theorem needsApproval_rounds_to_double:
  "needsApproval (10 ^ 18 + 1) (10 ^ 18) = False
   \<and> (0::nat) < 10 ^ 18 + 1 \<and> (10 ^ 18 :: nat) < 10 ^ 18 + 1"
proof -
  have "bitLength (10 ^ 18 + 1) = 60"
    using bitLength_eq [of 59 "10 ^ 18 + 1"] by simp
  then have "Number (10 ^ 18 + 1) = 10 ^ 18" by (simp add: Number_def Let_def)
  moreover have "bitLength (10 ^ 18) = 60"
    using bitLength_eq [of 59 "10 ^ 18"] by simp
  then have "Number (10 ^ 18) = 10 ^ 18" by (simp add: Number_def Let_def)
  ultimately show ?thesis by (simp add: needsApproval_def)
qed

text \<open>
  C4. On a run for a defined batch that returns a status, a \<open>ProposePrice\<close> event
  of the oracle's answer is in the filtered list exactly when it is in the answer, its
  ancillary data is the one computed from the hash of the batch and its timestamp is
  the value of \<open>proposalHashes\<close> for that hash; and the event reported in the status
  comes from an event that passes both tests.
\<close>

theorem oracle_event_needs_both_keys:
  assumes run: "getModuleDetailsUma lib ch account now network moduleAddress explanation
                  (Some txs) = (calls, Inr s)"
    and cfg: "multicall ch network moduleAddress = Some cfg"
    and enc: "defaultAbiCoder_encode lib txs = Some encoded"
    and ts: "module_proposalHashes ch moduleAddress (keccak256 lib encoded) = Some ts"
    and evs: "oracle_ProposePrice ch (cfg_optimisticOracle cfg) moduleAddress = Some events"
  shows "(ev \<in> set (thisModuleProposalEvent (ancillaryDataOf (keccak256 lib encoded)) ts events)
           \<longleftrightarrow> ev \<in> set events
               \<and> (\<exists>a. ev = Some a
                     \<and> pp_ancillaryData a = ancillaryDataOf (keccak256 lib encoded)
                     \<and> pp_timestamp a = ts))
       \<and> (\<forall>reported. proposalEvent s = Some reported \<longrightarrow>
             (\<exists>a result. Some a \<in> set events
                \<and> pp_ancillaryData a = ancillaryDataOf (keccak256 lib encoded)
                \<and> pp_timestamp a = ts
                \<and> reported = fullEventOf now (keccak256 lib encoded) a result))"
proof -
  let ?hash = "keccak256 lib encoded"
  let ?matching = "thisModuleProposalEvent (ancillaryDataOf ?hash) ts events"
  have filtered: "\<And>e. e \<in> set ?matching \<longleftrightarrow>
      e \<in> set events
      \<and> (\<exists>a. e = Some a \<and> pp_ancillaryData a = ancillaryDataOf ?hash \<and> pp_timestamp a = ts)"
    by (simp add: thisModuleProposalEvent_def matchesProposal_iff)
  from run obtain cfg' enc' ts' evs' gcalls full where
    "multicall ch network moduleAddress = Some cfg'"
    "defaultAbiCoder_encode lib txs = Some enc'"
    "module_proposalHashes ch moduleAddress (keccak256 lib enc') = Some ts'"
    "oracle_ProposePrice ch (cfg_optimisticOracle cfg') moduleAddress = Some evs'"
    "Promise_all (map (getFullEvent ch now (cfg_optimisticOracle cfg') (keccak256 lib enc'))
        (thisModuleProposalEvent (ancillaryDataOf (keccak256 lib enc')) ts' evs'))
       = (gcalls, Inr full)"
    "proposalEvent s = (case full of [] \<Rightarrow> None | f # fs \<Rightarrow> Some f)"
    by (rule getModuleDetailsUma_Some_Inr)
  with cfg enc ts evs have
    all: "Promise_all (map (getFullEvent ch now (cfg_optimisticOracle cfg) ?hash) ?matching)
            = (gcalls, Inr full)"
    and pe: "proposalEvent s = (case full of [] \<Rightarrow> None | f # fs \<Rightarrow> Some f)"
    by simp_all
  have "\<exists>a result. Some a \<in> set events \<and> pp_ancillaryData a = ancillaryDataOf ?hash
          \<and> pp_timestamp a = ts \<and> reported = fullEventOf now ?hash a result"
    if reported: "proposalEvent s = Some reported" for reported
  proof -
    from reported pe obtain ys where full: "full = reported # ys"
      by (cases full) simp_all
    with Promise_all_Inr [OF all]
    obtain e es where m: "?matching = e # es"
      and y: "snd (getFullEvent ch now (cfg_optimisticOracle cfg) ?hash e) = Inr reported"
      by (auto simp: list_all2_Cons2)
    from getFullEvent_Inr [OF y] obtain a result where
      e: "e = Some a" and r: "reported = fullEventOf now ?hash a result"
      by blast
    from m have "e \<in> set ?matching" by simp
    with filtered [of e] e r show ?thesis by auto
  qed
  with filtered [of ev] show ?thesis by blast
qed

theorem oracle_event_needs_both_keys_witness:
  "Some \<lparr> pp_requester = ''module'', pp_identifier = ''ZODIAC'', pp_timestamp = 1000,
          pp_ancillaryData = ancillaryDataOf exampleHash, pp_expirationTimestamp = 2000 \<rparr>
     \<in> set (thisModuleProposalEvent (ancillaryDataOf exampleHash) 1000 exampleOracleEvents)
   \<and> Some \<lparr> pp_requester = ''module'', pp_identifier = ''ZODIAC'', pp_timestamp = 999,
          pp_ancillaryData = ancillaryDataOf exampleHash, pp_expirationTimestamp = 1500 \<rparr>
     \<notin> set (thisModuleProposalEvent (ancillaryDataOf exampleHash) 1000 exampleOracleEvents)
   \<and> Some \<lparr> pp_requester = ''module'', pp_identifier = ''ZODIAC'', pp_timestamp = 1000,
          pp_ancillaryData = ''0x'', pp_expirationTimestamp = 1600 \<rparr>
     \<notin> set (thisModuleProposalEvent (ancillaryDataOf exampleHash) 1000 exampleOracleEvents)
   \<and> proposalEvent exampleStatus \<noteq> None"
proof -
  have cfg: "multicall (exampleChain exampleOracleEvents) ''1'' ''module''
     = Some \<lparr> cfg_avatar = ''dao'', cfg_optimisticOracle = ''oracle'', cfg_rules = ''rules'',
              cfg_bondAmount = 10, cfg_liveness = 100 \<rparr>"
    by (simp add: exampleChain_def)
  have ts: "module_proposalHashes (exampleChain exampleOracleEvents) ''module''
              (keccak256 exampleLib ''0x11111111111111111111111111111111111111110x'') = Some 1000"
    by (simp add: example_keccak) (simp add: exampleChain_def)
  have evs: "oracle_ProposePrice (exampleChain exampleOracleEvents)
               (cfg_optimisticOracle \<lparr> cfg_avatar = ''dao'', cfg_optimisticOracle = ''oracle'',
                  cfg_rules = ''rules'', cfg_bondAmount = 10, cfg_liveness = 100 \<rparr>) ''module''
             = Some exampleOracleEvents"
    by (simp add: exampleChain_def)
  note both = oracle_event_needs_both_keys [OF example_run cfg example_encode ts evs,
      unfolded example_keccak]
  have "Some \<lparr> pp_requester = ''module'', pp_identifier = ''ZODIAC'', pp_timestamp = 1000,
          pp_ancillaryData = ancillaryDataOf exampleHash, pp_expirationTimestamp = 2000 \<rparr>
     \<in> set (thisModuleProposalEvent (ancillaryDataOf exampleHash) 1000 exampleOracleEvents)"
    using both [THEN conjunct1] by (simp add: exampleOracleEvents_def)
  moreover have "Some \<lparr> pp_requester = ''module'', pp_identifier = ''ZODIAC'', pp_timestamp = 999,
          pp_ancillaryData = ancillaryDataOf exampleHash, pp_expirationTimestamp = 1500 \<rparr>
     \<notin> set (thisModuleProposalEvent (ancillaryDataOf exampleHash) 1000 exampleOracleEvents)"
    using both [THEN conjunct1] by simp
  moreover have "Some \<lparr> pp_requester = ''module'', pp_identifier = ''ZODIAC'', pp_timestamp = 1000,
          pp_ancillaryData = ''0x'', pp_expirationTimestamp = 1600 \<rparr>
     \<notin> set (thisModuleProposalEvent (ancillaryDataOf exampleHash) 1000 exampleOracleEvents)"
    using both [THEN conjunct1] by simp
  moreover have "proposalEvent exampleStatus \<noteq> None"
    by (simp add: exampleStatus_def)
  ultimately show ?thesis by blast
qed

text \<open>
  C9. On a run for a defined batch that returns a status: when an event of the oracle's
  answer matches both keys and no event before it in the answer does, the
  \<open>proposalEvent\<close> of the status is the record of that event and of the oracle request
  fetched for it, whatever events follow: its expiration is the event's, it is expired
  when \<open>now\<close> has reached the expiration read as a double, it is disputed when the
  request's disputer is not the zero address, its settlement flag, resolved price and
  proposal time are the request's, and its hash is the hash of the batch. The later
  matching events do not appear in the status.
\<close>

theorem first_matching_event_is_reported:
  assumes run: "getModuleDetailsUma lib ch account now network moduleAddress explanation
                  (Some txs) = (calls, Inr s)"
    and cfg: "multicall ch network moduleAddress = Some cfg"
    and enc: "defaultAbiCoder_encode lib txs = Some encoded"
    and ts: "module_proposalHashes ch moduleAddress (keccak256 lib encoded) = Some ts"
    and evs: "oracle_ProposePrice ch (cfg_optimisticOracle cfg) moduleAddress
                = Some (earlier @ Some a # later)"
    and earlier: "\<forall>e \<in> set earlier.
       \<not> (\<exists>b. e = Some b \<and> pp_ancillaryData b = ancillaryDataOf (keccak256 lib encoded)
              \<and> pp_timestamp b = ts)"
    and anc: "pp_ancillaryData a = ancillaryDataOf (keccak256 lib encoded)"
    and tsa: "pp_timestamp a = ts"
  shows "\<exists>result.
       oracle_getRequest ch (cfg_optimisticOracle cfg) (pp_requester a) (pp_identifier a)
          (pp_timestamp a) (pp_ancillaryData a) = Some result
     \<and> proposalEvent s = Some
          \<lparr> expirationTimestamp = Some (pp_expirationTimestamp a),
            isExpired = Some (Number (pp_expirationTimestamp a) \<le> now),
            isDisputed = Some (rq_disputer result
                                 \<noteq> ''0x0000000000000000000000000000000000000000''),
            isSettled = Some (rq_settled result),
            resolvedPrice = Some (rq_resolvedPrice result),
            proposalHash = Some (keccak256 lib encoded),
            proposalTime = Some (rq_timestamp result) \<rparr>"
proof -
  let ?hash = "keccak256 lib encoded"
  let ?P = "matchesProposal (ancillaryDataOf ?hash) ts"
  from earlier have "filter ?P earlier = []"
    by (simp add: matchesProposal_iff filter_empty_conv)
  moreover from anc tsa have "?P (Some a)"
    by (simp add: matchesProposal_iff)
  ultimately have matching:
    "thisModuleProposalEvent (ancillaryDataOf ?hash) ts (earlier @ Some a # later)
       = Some a # filter ?P later"
    by (simp add: thisModuleProposalEvent_def)
  from run obtain cfg' enc' ts' evs' gcalls full where
    "multicall ch network moduleAddress = Some cfg'"
    "defaultAbiCoder_encode lib txs = Some enc'"
    "module_proposalHashes ch moduleAddress (keccak256 lib enc') = Some ts'"
    "oracle_ProposePrice ch (cfg_optimisticOracle cfg') moduleAddress = Some evs'"
    "Promise_all (map (getFullEvent ch now (cfg_optimisticOracle cfg') (keccak256 lib enc'))
        (thisModuleProposalEvent (ancillaryDataOf (keccak256 lib enc')) ts' evs'))
       = (gcalls, Inr full)"
    "proposalEvent s = (case full of [] \<Rightarrow> None | f # fs \<Rightarrow> Some f)"
    by (rule getModuleDetailsUma_Some_Inr)
  with cfg enc ts evs matching have
    all: "Promise_all (map (getFullEvent ch now (cfg_optimisticOracle cfg) ?hash)
            (Some a # filter ?P later)) = (gcalls, Inr full)"
    and pe: "proposalEvent s = (case full of [] \<Rightarrow> None | f # fs \<Rightarrow> Some f)"
    by simp_all
  from Promise_all_Inr [OF all]
  obtain y ys where full: "full = y # ys"
    and y: "snd (getFullEvent ch now (cfg_optimisticOracle cfg) ?hash (Some a)) = Inr y"
    by (auto simp: list_all2_Cons1)
  from getFullEvent_Inr [OF y] obtain result where
    req: "oracle_getRequest ch (cfg_optimisticOracle cfg) (pp_requester a) (pp_identifier a)
            (pp_timestamp a) (pp_ancillaryData a) = Some result"
    and yr: "y = fullEventOf now ?hash a result"
    by auto
  from pe full yr have "proposalEvent s = Some
          \<lparr> expirationTimestamp = Some (pp_expirationTimestamp a),
            isExpired = Some (Number (pp_expirationTimestamp a) \<le> now),
            isDisputed = Some (rq_disputer result
                                 \<noteq> ''0x0000000000000000000000000000000000000000''),
            isSettled = Some (rq_settled result),
            resolvedPrice = Some (rq_resolvedPrice result),
            proposalHash = Some ?hash,
            proposalTime = Some (rq_timestamp result) \<rparr>"
    by (simp add: fullEventOf_def zeroAddress_def)
  with req show ?thesis by blast
qed

theorem first_matching_event_is_reported_witness:
  "oracle_ProposePrice (exampleChain exampleOracleEvents) ''oracle'' ''module''
     = Some (take 2 exampleOracleEvents @ exampleOracleEvents ! 2 # drop 3 exampleOracleEvents)
   \<and> exampleOracleEvents ! 2
       = Some \<lparr> pp_requester = ''module'', pp_identifier = ''ZODIAC'', pp_timestamp = 1000,
           pp_ancillaryData = ancillaryDataOf exampleHash, pp_expirationTimestamp = 2000 \<rparr>
   \<and> exampleOracleEvents ! 4
       = Some \<lparr> pp_requester = ''module'', pp_identifier = ''ZODIAC'', pp_timestamp = 1000,
           pp_ancillaryData = ancillaryDataOf exampleHash, pp_expirationTimestamp = 3000 \<rparr>
   \<and> oracle_getRequest (exampleChain exampleOracleEvents) ''oracle'' ''module'' ''ZODIAC'' 1000
         (ancillaryDataOf exampleHash)
       = Some \<lparr> rq_disputer = ''0x0000000000000000000000000000000000000000'',
           rq_settled = True, rq_resolvedPrice = 1, rq_timestamp = 1000 \<rparr>
   \<and> proposalEvent exampleStatus
       = Some \<lparr> expirationTimestamp = Some 2000, isExpired = Some True,
           isDisputed = Some False, isSettled = Some True, resolvedPrice = Some 1,
           proposalHash = Some exampleHash, proposalTime = Some 1000 \<rparr>"
proof -
  let ?first = "\<lparr> pp_requester = ''module'', pp_identifier = ''ZODIAC'', pp_timestamp = 1000,
           pp_ancillaryData = ancillaryDataOf exampleHash, pp_expirationTimestamp = 2000 \<rparr>"
  have cfg: "multicall (exampleChain exampleOracleEvents) ''1'' ''module''
     = Some \<lparr> cfg_avatar = ''dao'', cfg_optimisticOracle = ''oracle'', cfg_rules = ''rules'',
              cfg_bondAmount = 10, cfg_liveness = 100 \<rparr>"
    by (simp add: exampleChain_def)
  have ts: "module_proposalHashes (exampleChain exampleOracleEvents) ''module''
              (keccak256 exampleLib ''0x11111111111111111111111111111111111111110x'') = Some 1000"
    by (simp add: example_keccak) (simp add: exampleChain_def)
  have evs: "oracle_ProposePrice (exampleChain exampleOracleEvents)
               (cfg_optimisticOracle \<lparr> cfg_avatar = ''dao'', cfg_optimisticOracle = ''oracle'',
                  cfg_rules = ''rules'', cfg_bondAmount = 10, cfg_liveness = 100 \<rparr>) ''module''
             = Some (take 2 exampleOracleEvents @ Some ?first # drop 3 exampleOracleEvents)"
    by (simp add: exampleChain_def exampleOracleEvents_def)
  have earlier: "\<forall>e \<in> set (take 2 exampleOracleEvents).
       \<not> (\<exists>b. e = Some b
              \<and> pp_ancillaryData b = ancillaryDataOf
                   (keccak256 exampleLib ''0x11111111111111111111111111111111111111110x'')
              \<and> pp_timestamp b = 1000)"
    by (simp add: example_keccak) (simp add: exampleOracleEvents_def)
  have anc: "pp_ancillaryData ?first = ancillaryDataOf
       (keccak256 exampleLib ''0x11111111111111111111111111111111111111110x'')"
    by (simp add: example_keccak)
  have tsa: "pp_timestamp ?first = 1000" by simp
  have small: "Number 2000 = 2000" by (simp add: Number_small)
  from first_matching_event_is_reported
         [OF example_run cfg example_encode ts evs earlier anc tsa]
  show ?thesis
    by (auto simp: exampleChain_def exampleOracleEvents_def example_keccak zeroAddress_def small)
qed

text \<open>
  C3. On a run for a defined batch that returns a status, \<open>proposalExecuted\<close> is
  true exactly when some \<open>TransactionsProposed\<close> event whose explanation decodes to
  the given explanation and some \<open>ProposalExecuted\<close> event of the query filtered by
  the hash of the batch have the same proposal time.
\<close>

theorem executed_iff_shared_proposal_time:
  assumes run: "getModuleDetailsUma lib ch account now network moduleAddress explanation
                  (Some txs) = (calls, Inr s)"
    and enc: "defaultAbiCoder_encode lib txs = Some encoded"
    and tpe: "module_TransactionsProposed ch moduleAddress = Some proposedEvents"
    and exe: "module_ProposalExecuted ch moduleAddress (keccak256 lib encoded)
                = Some executionEvents"
  shows "proposalExecuted s \<longleftrightarrow>
     (\<exists>p x. Some p \<in> set proposedEvents
        \<and> toUtf8String lib (tp_explanation p) = Some explanation
        \<and> Some x \<in> set executionEvents
        \<and> ex_proposalTime x = tp_proposalTime p)"
proof -
  from run obtain enc' tpe' proposed exe' where
    "defaultAbiCoder_encode lib txs = Some enc'"
    "module_TransactionsProposed ch moduleAddress = Some tpe'"
    "thisProposalTransactionsProposedEvents lib explanation tpe' = Inr proposed"
    "module_ProposalExecuted ch moduleAddress (keccak256 lib enc') = Some exe'"
    "proposalExecuted s = proposalExecutedOf proposed exe'"
    by (rule getModuleDetailsUma_Some_Inr)
  with enc tpe exe have
    kept: "thisProposalTransactionsProposedEvents lib explanation proposedEvents = Inr proposed"
    and ex: "proposalExecuted s = proposalExecutedOf proposed executionEvents"
    by simp_all
  show ?thesis
    unfolding ex proposalExecutedOf_iff explanation_filter_mem [OF kept]
    by blast
qed

theorem executed_iff_shared_proposal_time_witness:
  "proposalExecuted exampleStatus
   \<and> toUtf8String exampleLib ''E'' = Some ''E''
   \<and> Some \<lparr> tp_explanation = ''E'', tp_proposalTime = 1000 \<rparr>
        \<in> set (the (module_TransactionsProposed (exampleChain exampleOracleEvents) ''module''))
   \<and> Some \<lparr> ex_proposalHash = exampleHash, ex_proposalTime = 1000 \<rparr>
        \<in> set (the (module_ProposalExecuted (exampleChain exampleOracleEvents) ''module''
                       exampleHash))"
  using executed_iff_shared_proposal_time [OF example_run example_encode,
      of "the (module_TransactionsProposed (exampleChain exampleOracleEvents) ''module'')"
         "the (module_ProposalExecuted (exampleChain exampleOracleEvents) ''module'' exampleHash)"]
  by (simp add: example_keccak) (simp add: exampleChain_def exampleLib_def exampleStatus_def)

text \<open>
  C2, as stated, fails. On a chain where the batch was proposed (\<open>proposalHashes\<close>
  is 1000) and the oracle's query returns no event, the engine reports no error: it
  returns a status with \<open>activeProposal\<close> true and no \<open>proposalEvent\<close>, which
  \<open>questionState\<close> maps to \<open>waitingForProposal\<close>.
\<close>

theorem submitted_without_oracle_event_counterexample:
  "module_proposalHashes (exampleChain []) ''module'' exampleHash = Some 1000
   \<and> oracle_ProposePrice (exampleChain []) ''oracle'' ''module'' = Some []
   \<and> snd (getModuleDetailsUma exampleLib (exampleChain []) (Some ''alice'') 2500 ''1'' ''module''
            ''E'' (Some exampleBatch)) = Inr (exampleStatus \<lparr> proposalEvent := None \<rparr>)
   \<and> activeProposal (exampleStatus \<lparr> proposalEvent := None \<rparr>)
   \<and> questionState (Some ''alice'') False (Some (exampleStatus \<lparr> proposalEvent := None \<rparr>))
       = waitingForProposal"
  by (simp add: lagging_run)
     (simp add: exampleChain_def exampleStatus_def questionState_def truthyString_def)

text \<open>
  C2, amended. The engine has no indeterminate result, and a missing oracle event is
  no error: when the configuration, bond and \<open>proposalHashes\<close> reads succeed, the
  batch was proposed, the oracle's query succeeds with no event that matches both keys,
  the module's two event queries succeed and every \<open>TransactionsProposed\<close>
  explanation decodes, the engine returns a status; that status has \<open>activeProposal\<close>
  true and \<open>proposalEvent\<close> undefined. What the state derivation makes of that status
  is left out.
\<close>

theorem submitted_without_oracle_event:
  assumes cfg: "multicall ch network moduleAddress = Some cfg"
    and bond: "getBondDetails ch account moduleAddress = (bondCalls, Inr bondDetails)"
    and enc: "defaultAbiCoder_encode lib txs = Some encoded"
    and ts: "module_proposalHashes ch moduleAddress (keccak256 lib encoded) = Some ts"
    and submitted: "0 < ts"
    and evs: "oracle_ProposePrice ch (cfg_optimisticOracle cfg) moduleAddress = Some events"
    and noMatch: "\<forall>e \<in> set events.
       \<not> (\<exists>a. e = Some a \<and> pp_ancillaryData a = ancillaryDataOf (keccak256 lib encoded)
              \<and> pp_timestamp a = ts)"
    and tpe: "module_TransactionsProposed ch moduleAddress = Some proposedEvents"
    and decoded: "\<forall>e \<in> set proposedEvents.
       \<exists>a str. e = Some a \<and> toUtf8String lib (tp_explanation a) = Some str"
    and exe: "module_ProposalExecuted ch moduleAddress (keccak256 lib encoded)
                = Some executionEvents"
  shows "\<exists>s.
     getModuleDetailsUma lib ch account now network moduleAddress explanation (Some txs)
       = (Multicall network moduleAddress # bondCalls
            @ [ProposalHashes moduleAddress (keccak256 lib encoded),
               ProposalHashes moduleAddress (keccak256 lib encoded),
               QueryProposePrice (cfg_optimisticOracle cfg) moduleAddress,
               QueryTransactionsProposed moduleAddress,
               QueryProposalExecuted moduleAddress (keccak256 lib encoded)],
          Inr s)
     \<and> activeProposal s \<and> proposalEvent s = None \<and> \<not> noTransactions s"
proof -
  from noMatch have empty:
    "thisModuleProposalEvent (ancillaryDataOf (keccak256 lib encoded)) ts events = []"
    by (simp add: thisModuleProposalEvent_def matchesProposal_iff filter_empty_conv)
  from explanation_filter_total [OF decoded] obtain proposed where
    kept: "thisProposalTransactionsProposedEvents lib explanation proposedEvents = Inr proposed"
    by blast
  from cfg bond enc ts submitted evs empty tpe kept exe show ?thesis
    by (simp add: getModuleDetailsUma_def await_def request_def resolve_def Let_def)
qed

theorem submitted_without_oracle_event_witness:
  "\<exists>s.
     getModuleDetailsUma exampleLib (exampleChain []) (Some ''alice'') 2500 ''1'' ''module'' ''E''
       (Some exampleBatch)
       = ([Multicall ''1'' ''module'', Collateral ''module'', Symbol ''token'',
           Decimals ''token'', Allowance ''token'' ''alice'' ''module'',
           BalanceOf ''token'' ''alice'', ProposalHashes ''module'' exampleHash,
           ProposalHashes ''module'' exampleHash, QueryProposePrice ''oracle'' ''module'',
           QueryTransactionsProposed ''module'', QueryProposalExecuted ''module'' exampleHash],
          Inr s)
     \<and> activeProposal s \<and> proposalEvent s = None \<and> \<not> noTransactions s"
proof -
  have cfg: "multicall (exampleChain []) ''1'' ''module''
     = Some \<lparr> cfg_avatar = ''dao'', cfg_optimisticOracle = ''oracle'', cfg_rules = ''rules'',
              cfg_bondAmount = 10, cfg_liveness = 100 \<rparr>"
    by (simp add: exampleChain_def)
  have bond: "getBondDetails (exampleChain []) (Some ''alice'') ''module''
     = ([Collateral ''module'', Symbol ''token'', Decimals ''token'',
         Allowance ''token'' ''alice'' ''module'', BalanceOf ''token'' ''alice''],
        Inr \<lparr> bi_collateral = ''token'', bi_symbol = ''WETH'', bi_decimals = 18,
              currentUserBondAllowance = 4, currentUserBalance = 50 \<rparr>)"
    by (simp add: getBondDetails_def connectedAccount_def await_def request_def resolve_def
          truthyString_def exampleChain_def)
  have ts: "module_proposalHashes (exampleChain []) ''module''
              (keccak256 exampleLib ''0x11111111111111111111111111111111111111110x'') = Some 1000"
    by (simp add: example_keccak) (simp add: exampleChain_def)
  have evs: "oracle_ProposePrice (exampleChain [])
               (cfg_optimisticOracle \<lparr> cfg_avatar = ''dao'', cfg_optimisticOracle = ''oracle'',
                  cfg_rules = ''rules'', cfg_bondAmount = 10, cfg_liveness = 100 \<rparr>) ''module''
             = Some []"
    by (simp add: exampleChain_def)
  have noMatch: "\<forall>e \<in> set ([] :: proposePriceArgs option list).
       \<not> (\<exists>a. e = Some a
              \<and> pp_ancillaryData a = ancillaryDataOf
                   (keccak256 exampleLib ''0x11111111111111111111111111111111111111110x'')
              \<and> pp_timestamp a = 1000)"
    by simp
  have tpe: "module_TransactionsProposed (exampleChain []) ''module''
     = Some [Some \<lparr> tp_explanation = ''F'', tp_proposalTime = 500 \<rparr>,
             Some \<lparr> tp_explanation = ''E'', tp_proposalTime = 1000 \<rparr>]"
    by (simp add: exampleChain_def)
  have decoded: "\<forall>e \<in> set [Some \<lparr> tp_explanation = ''F'', tp_proposalTime = 500 \<rparr>,
                                Some \<lparr> tp_explanation = ''E'', tp_proposalTime = 1000 \<rparr>].
       \<exists>a str. e = Some a \<and> toUtf8String exampleLib (tp_explanation a) = Some str"
    by (simp add: exampleLib_def)
  have exe: "module_ProposalExecuted (exampleChain []) ''module''
       (keccak256 exampleLib ''0x11111111111111111111111111111111111111110x'')
     = Some [Some \<lparr> ex_proposalHash = exampleHash, ex_proposalTime = 1000 \<rparr>]"
    by (simp add: example_keccak) (simp add: exampleChain_def)
  have submitted: "(0::nat) < 1000" by simp
  from submitted_without_oracle_event
         [OF cfg bond example_encode ts submitted evs noMatch tpe decoded exe,
          of 2500 "''E''"]
  show ?thesis by (simp add: example_keccak)
qed

text \<open>
  C5, as stated, fails for the empty batch: the source tests
  \<open>transactions !== undefined\<close>, so the empty array is hashed, \<open>proposalHashes\<close>
  is read, the three event queries are issued and \<open>noTransactions\<close> is false.
\<close>

theorem empty_batch_counterexample:
  "getModuleDetailsUma exampleLib (exampleChain exampleOracleEvents) (Some ''alice'') 2500 ''1''
     ''module'' ''E'' (Some [])
   = ([Multicall ''1'' ''module'', Collateral ''module'', Symbol ''token'', Decimals ''token'',
       Allowance ''token'' ''alice'' ''module'', BalanceOf ''token'' ''alice'',
       ProposalHashes ''module'' ''0x0'', ProposalHashes ''module'' ''0x0'',
       QueryProposePrice ''oracle'' ''module'',
       QueryTransactionsProposed ''module'', QueryProposalExecuted ''module'' ''0x0''],
      Inr (exampleStatus \<lparr> activeProposal := False, proposalEvent := None \<rparr>))
   \<and> noTransactions (exampleStatus \<lparr> activeProposal := False, proposalEvent := None \<rparr>) = False
   \<and> keccak256 exampleLib (the (defaultAbiCoder_encode exampleLib [])) = ''0x0''"
  by (simp add: empty_run) (simp add: example_defs exampleStatus_def)

text \<open>
  C5, amended. For an undefined batch every call of the run is a read of the module's
  configuration or of the bond; the run does not depend on the library, so nothing is
  hashed or packed; a returned status has \<open>noTransactions\<close> true, \<open>activeProposal\<close>
  and \<open>proposalExecuted\<close> false and the empty object as \<open>proposalEvent\<close>; and a
  status is returned whenever the configuration and bond reads succeed.
\<close>

theorem undefined_batch_reads_configuration_only:
  assumes "getModuleDetailsUma lib ch account now network moduleAddress explanation None
             = (calls, r)"
  shows "list_all configurationOrBondRead calls
       \<and> getModuleDetailsUma lib' ch account now network moduleAddress explanation None
           = (calls, r)
       \<and> (\<forall>s. r = Inr s \<longrightarrow>
             noTransactions s \<and> \<not> activeProposal s \<and> \<not> proposalExecuted s
             \<and> proposalEvent s = Some emptyObject)
       \<and> (\<forall>cfg bondCalls bondDetails.
             multicall ch network moduleAddress = Some cfg
             \<and> getBondDetails ch account moduleAddress = (bondCalls, Inr bondDetails)
             \<longrightarrow> (\<exists>s. r = Inr s))"
proof -
  note run = assms [unfolded getModuleDetailsUma_None resolve_def]
  from first_part_calls [OF run] have "list_all configurationOrBondRead calls" by simp
  moreover have "getModuleDetailsUma lib' ch account now network moduleAddress explanation None
           = (calls, r)"
    using assms by (simp add: getModuleDetailsUma_None)
  moreover have "noTransactions s \<and> \<not> activeProposal s \<and> \<not> proposalExecuted s
             \<and> proposalEvent s = Some emptyObject" if "r = Inr s" for s
    using first_part_Inr [OF run [unfolded that]] by auto
  moreover have "\<exists>s. r = Inr s"
    if "multicall ch network moduleAddress = Some cfg"
      and "getBondDetails ch account moduleAddress = (bondCalls, Inr bondDetails)"
    for cfg bondCalls bondDetails
    using first_part_result [OF run that] by simp
  ultimately show ?thesis by blast
qed

theorem undefined_batch_reads_configuration_only_witness:
  "list_all configurationOrBondRead
     [Multicall ''1'' ''module'', Collateral ''module'', Symbol ''token'', Decimals ''token'',
      Allowance ''token'' ''alice'' ''module'', BalanceOf ''token'' ''alice'']
   \<and> getModuleDetailsUma \<lparr> getAddress = (\<lambda>s. None), abiEncode = (\<lambda>txs. None),
         keccak256 = (\<lambda>bytes. []), toUtf8String = (\<lambda>bytes. None) \<rparr>
       (exampleChain exampleOracleEvents) (Some ''alice'') 2500 ''1'' ''module'' ''E'' None
     = ([Multicall ''1'' ''module'', Collateral ''module'', Symbol ''token'', Decimals ''token'',
         Allowance ''token'' ''alice'' ''module'', BalanceOf ''token'' ''alice''],
        Inr (exampleStatus \<lparr> noTransactions := True, activeProposal := False,
               proposalEvent := Some emptyObject, proposalExecuted := False \<rparr>))
   \<and> noTransactions (exampleStatus \<lparr> noTransactions := True, activeProposal := False,
               proposalEvent := Some emptyObject, proposalExecuted := False \<rparr>)"
  using undefined_batch_reads_configuration_only [OF undefined_run,
      of "\<lparr> getAddress = (\<lambda>s. None), abiEncode = (\<lambda>txs. None),
           keccak256 = (\<lambda>bytes. []), toUtf8String = (\<lambda>bytes. None) \<rparr>"]
  by simp

text \<open>
  C8, as stated, fails. The batch is encoded after the configuration and the bond
  have been read: for a batch whose destination is not an address, six reads are issued
  before the encoder throws.
\<close>

theorem malformed_batch_counterexample:
  "getAddress exampleLib (to (hd malformedBatch)) = None
   \<and> getModuleDetailsUma exampleLib (exampleChain exampleOracleEvents) (Some ''alice'') 2500 ''1''
       ''module'' ''E'' (Some malformedBatch)
     = ([Multicall ''1'' ''module'', Collateral ''module'', Symbol ''token'', Decimals ''token'',
         Allowance ''token'' ''alice'' ''module'', BalanceOf ''token'' ''alice''],
        Inl EncodeFailed)"
  by (simp add: malformed_run) (simp add: exampleLib_def malformedBatch_def)

text \<open>
  C8, amended. A run for a batch with a destination that \<open>getAddress\<close> rejects
  returns no status. Its first call is the batched configuration read, and every call
  is a configuration or bond read: \<open>proposalHashes\<close> is not read, no event is
  queried and no oracle request is fetched. When the configuration and bond reads
  succeed, the failure is the encoder's and the calls are exactly those reads.
\<close>

theorem malformed_batch_fails_after_first_reads:
  assumes bad: "t \<in> set txs" "getAddress lib (to t) = None"
    and run: "getModuleDetailsUma lib ch account now network moduleAddress explanation
                (Some txs) = (calls, r)"
  shows "(\<exists>e. r = Inl e)
       \<and> calls \<noteq> [] \<and> hd calls = Multicall network moduleAddress
       \<and> list_all configurationOrBondRead calls
       \<and> (\<forall>cfg bondCalls bondDetails.
             multicall ch network moduleAddress = Some cfg
             \<and> getBondDetails ch account moduleAddress = (bondCalls, Inr bondDetails)
             \<longrightarrow> r = Inl EncodeFailed
                 \<and> calls = Multicall network moduleAddress # bondCalls)"
proof -
  from bad have "defaultAbiCoder_encode lib txs = None"
    by (auto simp: defaultAbiCoder_encode_def list_ex_iff)
  note run' = run [unfolded getModuleDetailsUma_malformed [OF this] reject_def]
  have "\<exists>e. r = Inl e"
  proof (cases r)
    case (Inr s)
    with first_part_Inr [OF run' [unfolded Inr]] show ?thesis by simp
  qed simp
  moreover from first_part_calls [OF run']
  have "calls \<noteq> [] \<and> hd calls = Multicall network moduleAddress
          \<and> list_all configurationOrBondRead calls" .
  moreover have "r = Inl EncodeFailed \<and> calls = Multicall network moduleAddress # bondCalls"
    if "multicall ch network moduleAddress = Some cfg"
      and "getBondDetails ch account moduleAddress = (bondCalls, Inr bondDetails)"
    for cfg bondCalls bondDetails
    using run' that by (simp add: await_def request_def)
  ultimately show ?thesis by blast
qed

theorem malformed_batch_fails_after_first_reads_witness:
  "hd malformedBatch \<in> set malformedBatch
   \<and> getAddress exampleLib (to (hd malformedBatch)) = None
   \<and> snd (getModuleDetailsUma exampleLib (exampleChain exampleOracleEvents) (Some ''alice'') 2500
            ''1'' ''module'' ''E'' (Some malformedBatch)) = Inl EncodeFailed
   \<and> list_all configurationOrBondRead
       (fst (getModuleDetailsUma exampleLib (exampleChain exampleOracleEvents) (Some ''alice'')
              2500 ''1'' ''module'' ''E'' (Some malformedBatch)))"
proof -
  have mem: "hd malformedBatch \<in> set malformedBatch"
    by (simp add: malformedBatch_def)
  have bad: "getAddress exampleLib (to (hd malformedBatch)) = None"
    by (simp add: malformedBatch_def exampleLib_def)
  from malformed_batch_fails_after_first_reads [OF mem bad malformed_run] mem bad
  show ?thesis by (simp add: malformed_run)
qed

end
